theory Spec2Isabelle
  imports Main "HOL-Library.AList"
begin

section \<open>Data model of the Slack channel exporter (src/main.py)\<close>

text \<open>
  A raw message is the Python dict the Slack API returns. Only the four keys the exporter
  reads are kept; \<open>None\<close> is a missing key (what \<^verbatim>\<open>msg.get(k)\<close> answers
  with \<^verbatim>\<open>None\<close>).
\<close>

record raw_message =
  msg_ts :: "string option"
  msg_user :: "string option"
  msg_text :: "string option"
  msg_thread_ts :: "string option"

text \<open>The pydantic models \<^verbatim>\<open>ThreadReply\<close>, \<^verbatim>\<open>SlackMessage\<close>,
  \<^verbatim>\<open>UserInfo\<close> and \<^verbatim>\<open>SlackExport\<close>.\<close>

record thread_reply =
  tr_timestamp :: string
  tr_readable_time :: string
  tr_user :: string
  tr_text :: string

record slack_message =
  sm_timestamp :: string
  sm_readable_time :: string
  sm_user :: string
  sm_text :: string
  sm_thread_replies :: "thread_reply list"

record user_info =
  ui_name :: string
  ui_display_name :: string

record slack_export =
  ex_start_date :: string
  ex_end_date :: string
  ex_users :: "(string \<times> user_info) list"
  ex_chat :: "slack_message list"

subsection \<open>Exceptions and results\<close>

text \<open>
  The \<^verbatim>\<open>Retry-After\<close> header of the response carried by a
  \<^verbatim>\<open>SlackApiError\<close>, classified by what the handler of
  \<^verbatim>\<open>fetch_messages_for_period\<close> makes of it:
  \<^item> \<open>NoHint\<close>: the header is missing or empty, so
    \<^verbatim>\<open>e.response.headers.get("Retry-After")\<close> is falsy;
  \<^item> \<open>Unparsable\<close>: the header is a non-empty string that \<^verbatim>\<open>int(...)\<close>
    rejects with \<^verbatim>\<open>ValueError\<close> (for instance \<^verbatim>\<open>1.5\<close> or an HTTP date);
  \<^item> \<open>Seconds n\<close>: \<^verbatim>\<open>int(...)\<close> reads the header as the integer \<open>n\<close>.
\<close>

datatype retry_hint = NoHint | Unparsable | Seconds int

text \<open>
  The exceptions that matter to the control flow: \<^verbatim>\<open>SlackApiError\<close> with the
  error code and the retry hint of its response, \<^verbatim>\<open>OSError\<close> (caught by
  \<^verbatim>\<open>save_messages_to_file\<close>), \<^verbatim>\<open>ValueError\<close>, \<^verbatim>\<open>OverflowError\<close>, and any
  other subclass of \<^verbatim>\<open>Exception\<close> (\<^verbatim>\<open>KeyError\<close>, \<^verbatim>\<open>TypeError\<close>, ...).
\<close>

datatype exn =
  SlackApiError string retry_hint | OSError | ValueError | OverflowError | OtherException

datatype 'a outcome = Returns 'a | Raises exn

subsection \<open>The transport client\<close>

record history_request =
  hq_channel :: string
  hq_limit :: nat
  hq_oldest :: string
  hq_latest :: string
  hq_cursor :: "string option"

text \<open>
  Responses. A missing \<^verbatim>\<open>"messages"\<close>, \<^verbatim>\<open>"user"\<close> or
  \<^verbatim>\<open>response_metadata.next_cursor\<close> is \<open>None\<close>: subscripting it raises in Python.
  \<^verbatim>\<open>response.get("has_more")\<close> is kept as its truth value.
\<close>

record history_response =
  h_ok :: bool
  h_messages :: "raw_message list option"
  h_has_more :: bool
  h_next_cursor :: "string option"

record replies_response =
  r_ok :: bool
  r_messages :: "raw_message list option"

record slack_profile =
  p_real_name :: "string option"
  p_display_name :: "string option"

record slack_user =
  su_name :: "string option"
  su_profile :: "slack_profile option"

record user_response =
  u_ok :: bool
  u_user :: "slack_user option"

text \<open>
  The client is a stateful object: each method takes the client's state \<open>'c\<close> and gives
  back what the call did (a response or a raised exception) with the new state.
\<close>

record 'c transport =
  conversations_history :: "'c \<Rightarrow> history_request \<Rightarrow> history_response outcome \<times> 'c"
  conversations_replies :: "'c \<Rightarrow> string \<Rightarrow> string \<Rightarrow> replies_response outcome \<times> 'c"
  users_info :: "'c \<Rightarrow> string \<Rightarrow> user_response outcome \<times> 'c"

text \<open>
  The observable effects of a run, in the order they happen: requests sent to the
  transport, calls of \<^verbatim>\<open>time.sleep\<close>, and the file written at the end.
\<close>

datatype event =
    HistoryRequest history_request
  | RepliesRequest string string
  | UsersInfoRequest string
  | Sleep int
  | FileWrite string slack_export

type_synonym 'c world = "'c \<times> event list"

subsection \<open>The platform\<close>

text \<open>
  What the program takes from the Python library and the operating system and does not
  compute itself:
  \<^item> \<open>fromtimestamp_jst s\<close> is \<^verbatim>\<open>datetime.fromtimestamp(float(s), JST)\<close> as the
    period log of the paginator prints it; it raises when \<open>s\<close> is not a number or is
    out of range;
  \<^item> \<open>strftime_jst s\<close> is
    \<^verbatim>\<open>datetime.fromtimestamp(float(s), pytz.UTC).astimezone(JST).strftime(...)\<close>,
    which raises when \<open>s\<close> is not a number or is out of range;
  \<^item> \<open>open_ok filename\<close> tells whether opening and writing the file succeeds; otherwise
    \<^verbatim>\<open>OSError\<close> is raised;
  \<^item> \<open>hash_order\<close> ranks the identifiers: Python iterates over a set in an order that
    the hashes of its elements fix, here the elements sorted by that rank, the set being
    kept as a list without duplicates;
  \<^item> \<open>sleep_refused n\<close> tells whether the operating system refuses a sleep of \<open>n\<close>
    seconds (a deadline beyond the range of its clock), which raises \<^verbatim>\<open>OSError\<close>.
\<close>

record platform =
  fromtimestamp_jst :: "string \<Rightarrow> string outcome"
  strftime_jst :: "string \<Rightarrow> string outcome"
  open_ok :: "string \<Rightarrow> bool"
  hash_order :: "string \<Rightarrow> nat"
  sleep_refused :: "int \<Rightarrow> bool"

text \<open>
  \<^verbatim>\<open>time.sleep(n)\<close> on an integer: a negative argument raises \<^verbatim>\<open>ValueError\<close>, one
  whose nanoseconds do not fit the signed 64-bit clock of the interpreter (more than
  9223372036 seconds) raises \<^verbatim>\<open>OverflowError\<close>, and one that the operating system
  refuses raises \<^verbatim>\<open>OSError\<close>.
\<close>

definition sleep :: "platform \<Rightarrow> int \<Rightarrow> 'c world \<Rightarrow> unit outcome \<times> 'c world" where
  "sleep P n w =
     (if n < 0 then (Raises ValueError, w)
      else if 9223372036 < n then (Raises OverflowError, w)
      else if sleep_refused P n then (Raises OSError, w)
      else (Returns (), (fst w, snd w @ [Sleep n])))"

text \<open>
  \<^verbatim>\<open>time.sleep(1)\<close>, the fixed delay between pages and after a lookup: one second is
  in range, and the operating system is taken to grant it.
\<close>

definition pause :: "'c world \<Rightarrow> 'c world" where
  "pause w = (fst w, snd w @ [Sleep 1])"

section \<open>Thread expander: \<^verbatim>\<open>fetch_thread_messages\<close>\<close>

definition fetch_thread_messages ::
  "'c transport \<Rightarrow> string \<Rightarrow> string \<Rightarrow> 'c world \<Rightarrow> raw_message list outcome \<times> 'c world"
where
  "fetch_thread_messages T channel_id thread_ts w =
     (case conversations_replies T (fst w) channel_id thread_ts of
        (res, c') \<Rightarrow>
          let w' = (c', snd w @ [RepliesRequest channel_id thread_ts]) in
          (case res of
             Returns response \<Rightarrow>
               if r_ok response then
                 (case r_messages response of
                    None \<Rightarrow> (Raises OtherException, w')
                  | Some messages \<Rightarrow> (Returns (drop 1 messages), w'))
               else (Returns [], w')
           | Raises (SlackApiError code hint) \<Rightarrow> (Returns [], w')
           | Raises e \<Rightarrow> (Raises e, w')))"

section \<open>History paginator: \<^verbatim>\<open>fetch_messages_for_period\<close>\<close>

text \<open>
  The \<^verbatim>\<open>while True\<close> loop, one iteration per unfolding; the loop variables are
  \<open>cursor\<close> and \<open>all_messages\<close>. The result \<open>None\<close> is a loop that never
  leaves (a server that rate-limits for ever). The bounds are passed as the strings
  \<^verbatim>\<open>str(oldest_ts)\<close> and \<^verbatim>\<open>str(latest_ts)\<close> of the request.

  Inside \<^verbatim>\<open>try\<close>, a missing \<^verbatim>\<open>"messages"\<close> or a missing
  \<^verbatim>\<open>next_cursor\<close> raises and is caught by \<^verbatim>\<open>except Exception\<close>, which leaves
  the loop; the second happens after \<^verbatim>\<open>all_messages.extend(messages)\<close>.
  An exception raised inside the \<^verbatim>\<open>except SlackApiError\<close> handler (by
  \<^verbatim>\<open>int\<close> or by \<^verbatim>\<open>time.sleep\<close>) is not caught by the clause below it and
  leaves the function.
\<close>

definition request :: "string \<Rightarrow> string \<Rightarrow> string \<Rightarrow> string option \<Rightarrow> history_request" where
  "request channel_id oldest latest cursor =
     \<lparr>hq_channel = channel_id, hq_limit = 200, hq_oldest = oldest, hq_latest = latest,
      hq_cursor = cursor\<rparr>"

partial_function (option) history_loop ::
  "'c transport \<Rightarrow> platform \<Rightarrow> string \<Rightarrow> string \<Rightarrow> string \<Rightarrow> string option
     \<Rightarrow> raw_message list \<Rightarrow> 'c world \<Rightarrow> (raw_message list outcome \<times> 'c world) option"
where
  "history_loop T P channel_id oldest latest cursor all_messages w =
     (let req = request channel_id oldest latest cursor;
          called = conversations_history T (fst w) req;
          w1 = (snd called, snd w @ [HistoryRequest req])
      in case fst called of
           Returns response \<Rightarrow>
             if h_ok response then
               (case h_messages response of
                  None \<Rightarrow> Some (Returns all_messages, w1)
                | Some messages \<Rightarrow>
                    if h_has_more response then
                      (case h_next_cursor response of
                         None \<Rightarrow> Some (Returns (all_messages @ messages), w1)
                       | Some next_cursor \<Rightarrow>
                           history_loop T P channel_id oldest latest (Some next_cursor)
                             (all_messages @ messages) (pause w1))
                    else Some (Returns (all_messages @ messages), w1))
             else Some (Returns all_messages, w1)
         | Raises (SlackApiError code NoHint) \<Rightarrow> Some (Returns all_messages, w1)
         | Raises (SlackApiError code Unparsable) \<Rightarrow> Some (Raises ValueError, w1)
         | Raises (SlackApiError code (Seconds retry_after)) \<Rightarrow>
             (case sleep P retry_after w1 of
                (Returns u, w2) \<Rightarrow>
                  history_loop T P channel_id oldest latest cursor all_messages w2
              | (Raises e, w2) \<Rightarrow> Some (Raises e, w2))
         | Raises e \<Rightarrow> Some (Returns all_messages, w1))"

text \<open>
  Before the loop, the period log (lines 180 to 182) converts both bounds with
  \<^verbatim>\<open>datetime.fromtimestamp(float(...), JST)\<close>, the older one first, outside any
  \<^verbatim>\<open>try\<close>: an exception raised there leaves the function before a request is sent.
\<close>

definition fetch_messages_for_period ::
  "'c transport \<Rightarrow> platform \<Rightarrow> string \<Rightarrow> string \<Rightarrow> string \<Rightarrow> 'c world
     \<Rightarrow> (raw_message list outcome \<times> 'c world) option"
where
  "fetch_messages_for_period T P channel_id oldest_ts latest_ts w =
     (case fromtimestamp_jst P oldest_ts of
        Raises e \<Rightarrow> Some (Raises e, w)
      | Returns period_start \<Rightarrow>
          (case fromtimestamp_jst P latest_ts of
             Raises e \<Rightarrow> Some (Raises e, w)
           | Returns period_end \<Rightarrow>
               history_loop T P channel_id oldest_ts latest_ts None [] w))"

section \<open>Identity resolver: \<^verbatim>\<open>fetch_user_info\<close>\<close>

text \<open>
  \<^verbatim>\<open>user.get("name", "") or ""\<close> and
  \<^verbatim>\<open>profile.get("real_name") or profile.get("display_name") or ""\<close>: Python's
  \<^verbatim>\<open>or\<close> skips \<^verbatim>\<open>None\<close> and the empty string.
\<close>

definition user_name_of :: "slack_user \<Rightarrow> string" where
  "user_name_of user = (case su_name user of None \<Rightarrow> [] | Some n \<Rightarrow> n)"

definition display_name_of :: "slack_profile \<Rightarrow> string" where
  "display_name_of profile =
     (case p_real_name profile of
        Some r \<Rightarrow>
          if r \<noteq> [] then r
          else (case p_display_name profile of None \<Rightarrow> [] | Some d \<Rightarrow> d)
      | None \<Rightarrow> (case p_display_name profile of None \<Rightarrow> [] | Some d \<Rightarrow> d))"

definition profile_of :: "slack_user \<Rightarrow> slack_profile" where
  "profile_of user =
     (case su_profile user of
        None \<Rightarrow> \<lparr>p_real_name = None, p_display_name = None\<rparr>
      | Some p \<Rightarrow> p)"

definition resolved :: "slack_user \<Rightarrow> user_info" where
  "resolved user =
     \<lparr>ui_name = user_name_of user, ui_display_name = display_name_of (profile_of user)\<rparr>"

definition unknown_user :: user_info where
  "unknown_user = \<lparr>ui_name = [], ui_display_name = ''Unknown User''\<rparr>"

text \<open>
  The \<^verbatim>\<open>for user_id in user_ids\<close> loop, over the identifiers in the order the set
  yields them. The dict \<^verbatim>\<open>user_info\<close> is an association list in insertion order;
  \<^verbatim>\<open>user_info[user_id] = v\<close> is \<^const>\<open>AList.update\<close>. Only
  \<^verbatim>\<open>SlackApiError\<close> is caught; a response without \<^verbatim>\<open>"user"\<close> raises another
  exception, which leaves the function. A response that is not ok stores nothing.
\<close>

fun user_info_loop ::
  "'c transport \<Rightarrow> string list \<Rightarrow> (string \<times> user_info) list \<Rightarrow> 'c world
     \<Rightarrow> (string \<times> user_info) list outcome \<times> 'c world"
where
  "user_info_loop T [] user_info w = (Returns user_info, w)"
| "user_info_loop T (user_id # rest) user_info w =
     (let called = users_info T (fst w) user_id;
          w1 = (snd called, snd w @ [UsersInfoRequest user_id])
      in case fst called of
           Returns response \<Rightarrow>
             if u_ok response then
               (case u_user response of
                  None \<Rightarrow> (Raises OtherException, w1)
                | Some user \<Rightarrow>
                    user_info_loop T rest (AList.update user_id (resolved user) user_info)
                      (pause w1))
             else user_info_loop T rest user_info (pause w1)
         | Raises (SlackApiError code hint) \<Rightarrow>
             user_info_loop T rest (AList.update user_id unknown_user user_info) w1
         | Raises e \<Rightarrow> (Raises e, w1))"

definition fetch_user_info ::
  "'c transport \<Rightarrow> string list \<Rightarrow> 'c world \<Rightarrow> (string \<times> user_info) list outcome \<times> 'c world"
where
  "fetch_user_info T user_ids w = user_info_loop T user_ids [] w"

section \<open>Export assembler: \<^verbatim>\<open>save_messages_to_file\<close>\<close>

text \<open>\<^verbatim>\<open>d.get(key, default)\<close> on a key kept as an option.\<close>

definition get_default :: "string option \<Rightarrow> string \<Rightarrow> string" where
  "get_default v d = (case v of None \<Rightarrow> d | Some x \<Rightarrow> x)"

text \<open>
  \<^verbatim>\<open>msg.get("thread_ts") and msg.get("thread_ts") == msg.get("ts")\<close>: the message is
  a thread root; the result is \<^verbatim>\<open>msg["ts"]\<close> then.
\<close>

definition thread_root_ts :: "raw_message \<Rightarrow> string option" where
  "thread_root_ts msg =
     (case msg_thread_ts msg of
        None \<Rightarrow> None
      | Some t \<Rightarrow> if t \<noteq> [] \<and> msg_ts msg = Some t then Some t else None)"

text \<open>First pass (lines 280 to 286): the set of identifiers to resolve.\<close>

definition add_user :: "raw_message \<Rightarrow> string list \<Rightarrow> string list" where
  "add_user m user_ids = List.insert (get_default (msg_user m) ''Unknown User'') user_ids"

fun collect_user_ids ::
  "'c transport \<Rightarrow> string \<Rightarrow> raw_message list \<Rightarrow> string list \<Rightarrow> 'c world
     \<Rightarrow> string list outcome \<times> 'c world"
where
  "collect_user_ids T channel_id [] user_ids w = (Returns user_ids, w)"
| "collect_user_ids T channel_id (msg # rest) user_ids w =
     (case thread_root_ts msg of
        None \<Rightarrow> collect_user_ids T channel_id rest (add_user msg user_ids) w
      | Some t \<Rightarrow>
          (case fetch_thread_messages T channel_id t w of
             (Returns thread_messages, w1) \<Rightarrow>
               collect_user_ids T channel_id rest
                 (fold add_user thread_messages (add_user msg user_ids)) w1
           | (Raises e, w1) \<Rightarrow> (Raises e, w1)))"

text \<open>Second pass (lines 292 to 322): the records of the chat.\<close>

fun thread_replies_of :: "platform \<Rightarrow> raw_message list \<Rightarrow> thread_reply list outcome" where
  "thread_replies_of P [] = Returns []"
| "thread_replies_of P (reply # rest) =
     (case strftime_jst P (get_default (msg_ts reply) ''0'') of
        Raises e \<Rightarrow> Raises e
      | Returns readable \<Rightarrow>
          (case thread_replies_of P rest of
             Raises e \<Rightarrow> Raises e
           | Returns replies \<Rightarrow>
               Returns (\<lparr>tr_timestamp = get_default (msg_ts reply) [],
                         tr_readable_time = readable,
                         tr_user = get_default (msg_user reply) ''Unknown User'',
                         tr_text = get_default (msg_text reply) []\<rparr> # replies)))"

definition message_data :: "raw_message \<Rightarrow> string \<Rightarrow> thread_reply list \<Rightarrow> slack_message" where
  "message_data msg readable thread_replies =
     \<lparr>sm_timestamp = get_default (msg_ts msg) [],
      sm_readable_time = readable,
      sm_user = get_default (msg_user msg) ''Unknown User'',
      sm_text = get_default (msg_text msg) [],
      sm_thread_replies = thread_replies\<rparr>"

text \<open>
  One turn of the loop \<^verbatim>\<open>for msg in reversed(messages)\<close>: the thread of a root is
  fetched again, then its replies and the message itself are converted.
\<close>

definition chat_entry ::
  "'c transport \<Rightarrow> platform \<Rightarrow> string \<Rightarrow> raw_message \<Rightarrow> 'c world
     \<Rightarrow> slack_message outcome \<times> 'c world"
where
  "chat_entry T P channel_id msg w =
     (case (case thread_root_ts msg of
              None \<Rightarrow> (Returns [], w)
            | Some t \<Rightarrow>
                (case fetch_thread_messages T channel_id t w of
                   (Returns thread_messages, w1) \<Rightarrow> (thread_replies_of P thread_messages, w1)
                 | (Raises e, w1) \<Rightarrow> (Raises e, w1)))
      of
        (Raises e, w1) \<Rightarrow> (Raises e, w1)
      | (Returns thread_replies, w1) \<Rightarrow>
          (case strftime_jst P (get_default (msg_ts msg) ''0'') of
             Raises e \<Rightarrow> (Raises e, w1)
           | Returns readable \<Rightarrow> (Returns (message_data msg readable thread_replies), w1)))"

fun chat_loop ::
  "'c transport \<Rightarrow> platform \<Rightarrow> string \<Rightarrow> raw_message list \<Rightarrow> slack_message list \<Rightarrow> 'c world
     \<Rightarrow> slack_message list outcome \<times> 'c world"
where
  "chat_loop T P channel_id [] chat_data w = (Returns chat_data, w)"
| "chat_loop T P channel_id (msg # rest) chat_data w =
     (case chat_entry T P channel_id msg w of
        (Raises e, w1) \<Rightarrow> (Raises e, w1)
      | (Returns entry, w1) \<Rightarrow> chat_loop T P channel_id rest (chat_data @ [entry]) w1)"

text \<open>
  The body of \<^verbatim>\<open>try\<close> up to the construction of the document, then the write.
  \<^verbatim>\<open>except OSError\<close> catches that exception wherever the body raised it and the
  function returns; any other exception leaves the function.
\<close>

definition assemble ::
  "'c transport \<Rightarrow> platform \<Rightarrow> raw_message list \<Rightarrow> string \<Rightarrow> string \<Rightarrow> string \<Rightarrow> 'c world
     \<Rightarrow> slack_export outcome \<times> 'c world"
where
  "assemble T P messages channel_id start_date end_date w =
     (case collect_user_ids T channel_id messages [] w of
        (Raises e, w1) \<Rightarrow> (Raises e, w1)
      | (Returns user_ids, w1) \<Rightarrow>
          (case fetch_user_info T (sort_key (hash_order P) user_ids) w1 of
             (Raises e, w2) \<Rightarrow> (Raises e, w2)
           | (Returns user_info, w2) \<Rightarrow>
               (case chat_loop T P channel_id (rev messages) [] w2 of
                  (Raises e, w3) \<Rightarrow> (Raises e, w3)
                | (Returns chat_data, w3) \<Rightarrow>
                    (Returns \<lparr>ex_start_date = start_date, ex_end_date = end_date,
                               ex_users = user_info, ex_chat = chat_data\<rparr>, w3))))"

definition save_messages_to_file ::
  "'c transport \<Rightarrow> platform \<Rightarrow> raw_message list \<Rightarrow> string \<Rightarrow> string \<Rightarrow> string \<Rightarrow> string
     \<Rightarrow> 'c world \<Rightarrow> unit outcome \<times> 'c world"
where
  "save_messages_to_file T P messages channel_id filename start_date end_date w =
     (case assemble T P messages channel_id start_date end_date w of
        (Raises e, w1) \<Rightarrow> (if e = OSError then Returns () else Raises e, w1)
      | (Returns export_data, w1) \<Rightarrow>
          if open_ok P filename
          then (Returns (), (fst w1, snd w1 @ [FileWrite filename export_data]))
          else (Returns (), w1))"

section \<open>The main program, from the creation of the client on (lines 388 to 400)\<close>

text \<open>
  \<^verbatim>\<open>generate_output_filename\<close>; \<open>now\<close> is the current time in the reference
  timezone, formatted \<^verbatim>\<open>%Y%m%d-%H%M%S\<close>.
\<close>

definition generate_output_filename :: "string \<Rightarrow> string option \<Rightarrow> string \<Rightarrow> string" where
  "generate_output_filename channel_id specified_output now =
     (case specified_output of
        Some out \<Rightarrow> if out \<noteq> [] then out else channel_id @ ''-'' @ now @ ''.json''
      | None \<Rightarrow> channel_id @ ''-'' @ now @ ''.json'')"

definition main_run ::
  "'c transport \<Rightarrow> platform \<Rightarrow> string \<Rightarrow> string \<Rightarrow> string \<Rightarrow> string option \<Rightarrow> string
     \<Rightarrow> string \<Rightarrow> string \<Rightarrow> 'c world \<Rightarrow> (unit outcome \<times> 'c world) option"
where
  "main_run T P channel_id oldest_timestamp latest_timestamp output now
       start_date_str end_date_str w =
     (case fetch_messages_for_period T P channel_id oldest_timestamp latest_timestamp w of
        None \<Rightarrow> None
      | Some (Raises e, w1) \<Rightarrow> Some (Raises e, w1)
      | Some (Returns all_messages, w1) \<Rightarrow>
          if all_messages \<noteq> []
          then Some (save_messages_to_file T P all_messages channel_id
                       (generate_output_filename channel_id output now)
                       start_date_str end_date_str w1)
          else Some (Returns (), w1))"

section \<open>Reading the effects of a run\<close>

text \<open>The documents written and the delays slept, read off the events of a run.\<close>

fun written :: "event list \<Rightarrow> (string \<times> slack_export) list" where
  "written [] = []"
| "written (FileWrite filename doc # es) = (filename, doc) # written es"
| "written (e # es) = written es"

fun sleeps :: "event list \<Rightarrow> int list" where
  "sleeps [] = []"
| "sleeps (Sleep n # es) = n # sleeps es"
| "sleeps (e # es) = sleeps es"

text \<open>
  What the transport answers to the lookups of a batch, in the order they are made, when
  no lookup aborts the batch: the identifier with the answer to its lookup.
\<close>

fun lookup_answers ::
  "'c transport \<Rightarrow> 'c \<Rightarrow> string list \<Rightarrow> (string \<times> user_response outcome) list"
where
  "lookup_answers T c [] = []"
| "lookup_answers T c (user_id # rest) =
     (user_id, fst (users_info T c user_id)) # lookup_answers T (snd (users_info T c user_id)) rest"

text \<open>A lookup that \<^verbatim>\<open>fetch_user_info\<close> survives: a response (with its user when it
  is ok) or a \<^verbatim>\<open>SlackApiError\<close>.\<close>

fun survivable :: "user_response outcome \<Rightarrow> bool" where
  "survivable (Returns response) = (u_ok response \<longrightarrow> u_user response \<noteq> None)"
| "survivable (Raises (SlackApiError code hint)) = True"
| "survivable (Raises e) = False"

text \<open>
  The entry of the mapping that goes with the answer to a lookup: the sentinel for a
  \<^verbatim>\<open>SlackApiError\<close>, the resolved names for a response that is ok.
\<close>

fun entry_for :: "user_response outcome \<Rightarrow> user_info option \<Rightarrow> bool" where
  "entry_for (Raises (SlackApiError code hint)) entry = (entry = Some unknown_user)"
| "entry_for (Raises e) entry = True"
| "entry_for (Returns response) entry =
     (case u_user response of
        Some user \<Rightarrow> u_ok response \<longrightarrow> entry = Some (resolved user)
      | None \<Rightarrow> True)"

text \<open>The fields of a record that come from the raw message alone.\<close>

definition raw_fields :: "raw_message \<Rightarrow> string \<times> string \<times> string" where
  "raw_fields m =
     (get_default (msg_ts m) [], get_default (msg_user m) ''Unknown User'',
      get_default (msg_text m) [])"

definition message_fields :: "slack_message \<Rightarrow> string \<times> string \<times> string" where
  "message_fields e = (sm_timestamp e, sm_user e, sm_text e)"


text \<open>
  The messages are exported by a run when one of the documents it wrote has one chat
  entry per message, in the reverse of their order.
\<close>

definition exported :: "raw_message list \<Rightarrow> event list \<Rightarrow> bool" where
  "exported messages events =
     list_ex (\<lambda>(filename, doc). map message_fields (ex_chat doc) = rev (map raw_fields messages))
       (written events)"

section \<open>Test doubles, after src/tests/test\_main.py\<close>

definition raw :: "string \<Rightarrow> raw_message" where
  "raw t = \<lparr>msg_ts = Some t, msg_user = None, msg_text = None, msg_thread_ts = None\<rparr>"

text \<open>
  \<^verbatim>\<open>DummyClient\<close>: the state counts the history calls. The first page has more, the
  second has not; a thread is its root and two replies; the lookup of \<^verbatim>\<open>U_err\<close>
  raises.
\<close>

definition dummy_client :: "nat transport" where
  "dummy_client =
     \<lparr>conversations_history = (\<lambda>calls req.
          if calls = 0
          then (Returns \<lparr>h_ok = True, h_messages = Some [raw ''1''], h_has_more = True,
                          h_next_cursor = Some ''cursor1''\<rparr>, Suc calls)
          else (Returns \<lparr>h_ok = True, h_messages = Some [raw ''2''], h_has_more = False,
                          h_next_cursor = None\<rparr>, Suc calls)),
      conversations_replies = (\<lambda>calls channel ts.
          (Returns \<lparr>r_ok = True, r_messages = Some [raw ts, raw ''r1'', raw ''r2'']\<rparr>, calls)),
      users_info = (\<lambda>calls user.
          if user = ''U_err'' then (Raises (SlackApiError ''e'' NoHint), calls)
          else (Returns \<lparr>u_ok = True,
                  u_user = Some \<lparr>su_name = Some (''name_'' @ user),
                    su_profile = Some \<lparr>p_real_name = Some (''Real_'' @ user),
                                        p_display_name = None\<rparr>\<rparr>\<rparr>, calls))\<rparr>"

text \<open>A client whose every call raises \<^verbatim>\<open>SlackApiError\<close> without a retry hint.\<close>

definition failing_client :: "nat transport" where
  "failing_client =
     \<lparr>conversations_history = (\<lambda>calls req. (Raises (SlackApiError ''error'' NoHint), Suc calls)),
      conversations_replies = (\<lambda>calls channel ts. (Raises (SlackApiError ''error'' NoHint), calls)),
      users_info = (\<lambda>calls user. (Raises (SlackApiError ''error'' NoHint), calls))\<rparr>"

text \<open>A client that reports every failure in a well-formed response with
  \<^verbatim>\<open>ok = False\<close>.\<close>

definition not_ok_client :: "nat transport" where
  "not_ok_client =
     \<lparr>conversations_history = (\<lambda>calls req.
          (Returns \<lparr>h_ok = False, h_messages = None, h_has_more = False,
                    h_next_cursor = None\<rparr>, Suc calls)),
      conversations_replies = (\<lambda>calls channel ts.
          (Returns \<lparr>r_ok = False, r_messages = None\<rparr>, calls)),
      users_info = (\<lambda>calls user. (Returns \<lparr>u_ok = False, u_user = None\<rparr>, calls))\<rparr>"

text \<open>
  A client that is rate-limited on its first history call, with the given hint, and
  answers like \<^const>\<open>dummy_client\<close> afterwards.
\<close>

definition rate_limited_client :: "retry_hint \<Rightarrow> nat transport" where
  "rate_limited_client hint =
     dummy_client\<lparr>conversations_history := (\<lambda>calls req.
        if calls = 0 then (Raises (SlackApiError ''ratelimited'' hint), Suc calls)
        else (fst (conversations_history dummy_client (calls - 1) req), Suc calls))\<rparr>"

text \<open>
  A client that answers its first history call like \<^const>\<open>dummy_client\<close>, with a page
  that announces more, and is rate-limited from then on, with the given hint.
\<close>

definition limited_later_client :: "retry_hint \<Rightarrow> nat transport" where
  "limited_later_client hint =
     dummy_client\<lparr>conversations_history := (\<lambda>calls req.
        if calls = 0 then conversations_history dummy_client 0 req
        else (Raises (SlackApiError ''ratelimited'' hint), Suc calls))\<rparr>"

definition test_messages :: "raw_message list" where
  "test_messages =
     [\<lparr>msg_ts = Some ''100'', msg_user = Some ''U1'', msg_text = Some ''hello'',
       msg_thread_ts = Some ''100''\<rparr>,
      \<lparr>msg_ts = Some ''200'', msg_user = Some ''U2'', msg_text = Some ''hi'',
       msg_thread_ts = None\<rparr>,
      \<lparr>msg_ts = Some ''300'', msg_user = None, msg_text = Some ''joined'',
       msg_thread_ts = None\<rparr>]"

definition test_thread :: "raw_message list" where
  "test_thread =
     [\<lparr>msg_ts = Some ''100'', msg_user = Some ''U1'', msg_text = Some ''hello'',
       msg_thread_ts = Some ''100''\<rparr>,
      \<lparr>msg_ts = Some ''101'', msg_user = Some ''U3'', msg_text = Some ''reply'',
       msg_thread_ts = Some ''100''\<rparr>,
      \<lparr>msg_ts = Some ''102'', msg_user = None, msg_text = Some ''bot'',
       msg_thread_ts = Some ''100''\<rparr>]"

text \<open>
  The setting of \<^verbatim>\<open>test_save_messages_to_file\<close>, with a third message and a
  second reply that have no author: the thread of \<^verbatim>\<open>100\<close> is its root followed
  by two replies. The history is one page that announces more, then an API error without
  retry hint; the state counts the history calls.
\<close>

definition export_client :: "nat transport" where
  "export_client =
     \<lparr>conversations_history = (\<lambda>calls req.
          if calls = 0
          then (Returns \<lparr>h_ok = True, h_messages = Some test_messages, h_has_more = True,
                          h_next_cursor = Some ''cursor1''\<rparr>, Suc calls)
          else (Raises (SlackApiError ''internal_error'' NoHint), Suc calls)),
      conversations_replies = (\<lambda>calls channel ts.
          if ts = ''100'' then (Returns \<lparr>r_ok = True, r_messages = Some test_thread\<rparr>, calls)
          else (Returns \<lparr>r_ok = True, r_messages = Some []\<rparr>, calls)),
      users_info = users_info dummy_client\<rparr>"

text \<open>
  A platform that formats every timestamp (as itself), writes every file, gives every
  identifier the same rank, so that a set is iterated in insertion order, and grants every
  sleep.
\<close>

definition test_platform :: platform where
  "test_platform =
     \<lparr>fromtimestamp_jst = (\<lambda>s. Returns s), strftime_jst = (\<lambda>s. Returns s),
      open_ok = (\<lambda>filename. True), hash_order = (\<lambda>user_id. 0),
      sleep_refused = (\<lambda>n. False)\<rparr>"

text \<open>What the assembler makes of \<^const>\<open>test_messages\<close> on that client and platform.\<close>

definition test_document :: slack_export where
  "test_document =
     \<lparr>ex_start_date = ''2023-01-01 00:00:00'',
      ex_end_date = ''2023-01-02 23:59:59'',
      ex_users =
        [(''U2'', \<lparr>ui_name = ''name_U2'', ui_display_name = ''Real_U2''\<rparr>),
         (''Unknown User'',
          \<lparr>ui_name = ''name_Unknown User'', ui_display_name = ''Real_Unknown User''\<rparr>),
         (''U3'', \<lparr>ui_name = ''name_U3'', ui_display_name = ''Real_U3''\<rparr>),
         (''U1'', \<lparr>ui_name = ''name_U1'', ui_display_name = ''Real_U1''\<rparr>)],
      ex_chat =
        [\<lparr>sm_timestamp = ''300'', sm_readable_time = ''300'', sm_user = ''Unknown User'',
          sm_text = ''joined'', sm_thread_replies = []\<rparr>,
         \<lparr>sm_timestamp = ''200'', sm_readable_time = ''200'', sm_user = ''U2'',
          sm_text = ''hi'', sm_thread_replies = []\<rparr>,
         \<lparr>sm_timestamp = ''100'', sm_readable_time = ''100'', sm_user = ''U1'',
          sm_text = ''hello'',
          sm_thread_replies =
            [\<lparr>tr_timestamp = ''101'', tr_readable_time = ''101'', tr_user = ''U3'',
              tr_text = ''reply''\<rparr>,
             \<lparr>tr_timestamp = ''102'', tr_readable_time = ''102'', tr_user = ''Unknown User'',
              tr_text = ''bot''\<rparr>]\<rparr>]\<rparr>"

definition test_events :: "event list" where
  "test_events =
     [RepliesRequest ''C123'' ''100'', UsersInfoRequest ''U2'', Sleep 1,
      UsersInfoRequest ''Unknown User'', Sleep 1, UsersInfoRequest ''U3'', Sleep 1,
      UsersInfoRequest ''U1'', Sleep 1, RepliesRequest ''C123'' ''100'']"

section \<open>One iteration of the pagination loop\<close>

text \<open>
  Each lemma unfolds the loop once, for one way the call of
  \<^verbatim>\<open>conversations_history\<close> can end.
\<close>

lemma history_loop_page_more:
  assumes "conversations_history T c (request ch old new cursor) = (Returns response, c')"
    and "h_ok response" and "h_messages response = Some messages"
    and "h_has_more response" and "h_next_cursor response = Some k"
  shows "history_loop T P ch old new cursor acc (c, lg) =
         history_loop T P ch old new (Some k) (acc @ messages)
           (c', lg @ [HistoryRequest (request ch old new cursor), Sleep 1])"
  using assms
  by (subst history_loop.simps) (simp add: pause_def Let_def)

lemma history_loop_page_last:
  assumes "conversations_history T c (request ch old new cursor) = (Returns response, c')"
    and "h_ok response" and "h_messages response = Some messages"
    and "\<not> h_has_more response"
  shows "history_loop T P ch old new cursor acc (c, lg) =
         Some (Returns (acc @ messages), (c', lg @ [HistoryRequest (request ch old new cursor)]))"
  using assms
  by (subst history_loop.simps) (simp add: Let_def)

lemma history_loop_not_ok:
  assumes "conversations_history T c (request ch old new cursor) = (Returns response, c')"
    and "\<not> h_ok response"
  shows "history_loop T P ch old new cursor acc (c, lg) =
         Some (Returns acc, (c', lg @ [HistoryRequest (request ch old new cursor)]))"
  using assms
  by (subst history_loop.simps) (simp add: Let_def)

lemma history_loop_rate_limited:
  assumes "conversations_history T c (request ch old new cursor) =
             (Raises (SlackApiError code (Seconds n)), c')"
    and "0 \<le> n" and "n \<le> 9223372036" and "\<not> sleep_refused P n"
  shows "history_loop T P ch old new cursor acc (c, lg) =
         history_loop T P ch old new cursor acc
           (c', lg @ [HistoryRequest (request ch old new cursor), Sleep n])"
  using assms
  by (subst history_loop.simps) (simp add: sleep_def Let_def)

lemma history_loop_no_hint:
  assumes "conversations_history T c (request ch old new cursor) =
             (Raises (SlackApiError code NoHint), c')"
  shows "history_loop T P ch old new cursor acc (c, lg) =
         Some (Returns acc, (c', lg @ [HistoryRequest (request ch old new cursor)]))"
  using assms
  by (subst history_loop.simps) (simp add: Let_def)

lemma history_loop_unparsable:
  assumes "conversations_history T c (request ch old new cursor) =
             (Raises (SlackApiError code Unparsable), c')"
  shows "history_loop T P ch old new cursor acc (c, lg) =
         Some (Raises ValueError, (c', lg @ [HistoryRequest (request ch old new cursor)]))"
  using assms
  by (subst history_loop.simps) (simp add: Let_def)

lemma history_loop_negative:
  assumes "conversations_history T c (request ch old new cursor) =
             (Raises (SlackApiError code (Seconds n)), c')"
    and "n < 0"
  shows "history_loop T P ch old new cursor acc (c, lg) =
         Some (Raises ValueError, (c', lg @ [HistoryRequest (request ch old new cursor)]))"
  using assms
  by (subst history_loop.simps) (simp add: sleep_def Let_def)

lemma history_loop_too_long:
  assumes "conversations_history T c (request ch old new cursor) =
             (Raises (SlackApiError code (Seconds n)), c')"
    and "9223372036 < n"
  shows "history_loop T P ch old new cursor acc (c, lg) =
         Some (Raises OverflowError, (c', lg @ [HistoryRequest (request ch old new cursor)]))"
  using assms
  by (subst history_loop.simps) (simp add: sleep_def Let_def)

lemma history_loop_refused:
  assumes "conversations_history T c (request ch old new cursor) =
             (Raises (SlackApiError code (Seconds n)), c')"
    and "0 \<le> n" and "n \<le> 9223372036" and "sleep_refused P n"
  shows "history_loop T P ch old new cursor acc (c, lg) =
         Some (Raises OSError, (c', lg @ [HistoryRequest (request ch old new cursor)]))"
  using assms
  by (subst history_loop.simps) (simp add: sleep_def Let_def)

lemma history_loop_unexpected:
  assumes "conversations_history T c (request ch old new cursor) = (Raises e, c')"
    and "\<forall>code hint. e \<noteq> SlackApiError code hint"
  shows "history_loop T P ch old new cursor acc (c, lg) =
         Some (Returns acc, (c', lg @ [HistoryRequest (request ch old new cursor)]))"
  using assms
  by (subst history_loop.simps) (cases e; simp add: Let_def)

text \<open>
  Over the whole loop, by fixpoint induction: an exception that leaves the loop comes
  from the rate-limit handler (\<^verbatim>\<open>int\<close> or \<^verbatim>\<open>time.sleep\<close>), and a transport whose
  rate-limit errors carry no hint, or a number of seconds that \<^verbatim>\<open>time.sleep\<close> accepts,
  never makes the loop raise.
\<close>

lemma history_loop_raises_in_handler_only:
  assumes "history_loop T P ch old new cursor acc w = Some y"
  shows "\<forall>e. fst y = Raises e \<longrightarrow> e = ValueError \<or> e = OverflowError \<or> e = OSError"
  using assms
proof (induction rule: history_loop.raw_induct [rotated 1, consumes 1, case_names step])
  case (step loop T P ch old new cursor acc w y)
  note IH = step.IH and step = step.hyps
  show ?case
    using step IH
    by (auto simp: Let_def sleep_def
        split: outcome.splits exn.splits retry_hint.splits option.splits if_splits prod.splits)
qed

lemma history_loop_returns_on_proper_hints:
  assumes "history_loop T P ch old new cursor acc w = Some y"
    and "\<forall>c req code hint c'.
           conversations_history T c req = (Raises (SlackApiError code hint), c') \<longrightarrow>
           hint = NoHint \<or>
           (\<exists>n. hint = Seconds n \<and> 0 \<le> n \<and> n \<le> 9223372036 \<and> \<not> sleep_refused P n)"
  shows "\<exists>messages. fst y = Returns messages"
proof -
  have "(\<forall>c req code hint c'.
           conversations_history T c req = (Raises (SlackApiError code hint), c') \<longrightarrow>
           hint = NoHint \<or>
           (\<exists>n. hint = Seconds n \<and> 0 \<le> n \<and> n \<le> 9223372036 \<and> \<not> sleep_refused P n)) \<longrightarrow>
        (\<exists>messages. fst y = Returns messages)"
    apply (rule history_loop.raw_induct
        [where Pa = "\<lambda>(((((((T, P), ch), old), new), cursor), acc), w) y.
           (\<forall>c req code hint c'.
              conversations_history T c req = (Raises (SlackApiError code hint), c') \<longrightarrow>
              hint = NoHint \<or>
              (\<exists>n. hint = Seconds n \<and> 0 \<le> n \<and> n \<le> 9223372036 \<and> \<not> sleep_refused P n)) \<longrightarrow>
           (\<exists>messages. fst y = Returns messages)",
         OF _ assms(1), simplified prod.case])
    subgoal premises step for loop T P ch old new cursor acc w y
    proof
      assume hints: "\<forall>c req code hint c'.
           conversations_history T c req = (Raises (SlackApiError code hint), c') \<longrightarrow>
           hint = NoHint \<or>
           (\<exists>n. hint = Seconds n \<and> 0 \<le> n \<and> n \<le> 9223372036 \<and> \<not> sleep_refused P n)"
      note unfolded = step(2)
      have IH: "\<exists>messages. fst y' = Returns messages"
        if "loop T P ch old new cursor' acc' w' = Some y'" for cursor' acc' w' y'
        using step(1) [OF that] hints by blast
      obtain res c' where
        call: "conversations_history T (fst w) (request ch old new cursor) = (res, c')"
        by (cases "conversations_history T (fst w) (request ch old new cursor)")
      show "\<exists>messages. fst y = Returns messages"
      proof (cases res)
        case (Returns response)
        with call unfolded IH show ?thesis
          by (auto simp: Let_def split: option.splits if_splits)
      next
        case (Raises e)
        show ?thesis
        proof (cases e)
          case (SlackApiError code hint)
          with call Raises have "conversations_history T (fst w) (request ch old new cursor) =
              (Raises (SlackApiError code hint), c')"
            by simp
          from hints [rule_format, OF this]
          consider "hint = NoHint"
            | n where "hint = Seconds n" "0 \<le> n" "n \<le> 9223372036" "\<not> sleep_refused P n"
            by auto
          then show ?thesis
          proof cases
            case 1
            with call Raises SlackApiError unfolded show ?thesis
              by (auto simp: Let_def)
          next
            case 2
            with call Raises SlackApiError unfolded IH show ?thesis
              by (auto simp: Let_def sleep_def)
          qed
        next
          case OSError
          with call Raises unfolded show ?thesis by (auto simp: Let_def)
        next
          case ValueError
          with call Raises unfolded show ?thesis by (auto simp: Let_def)
        next
          case OverflowError
          with call Raises unfolded show ?thesis by (auto simp: Let_def)
        next
          case OtherException
          with call Raises unfolded show ?thesis by (auto simp: Let_def)
        qed
      qed
    qed
    done
  with assms(2) show ?thesis by blast
qed

text \<open>The paginator as a whole: the period log first, then the loop.\<close>

lemma fetch_messages_unfold:
  assumes "fromtimestamp_jst P old = Returns period_start"
    and "fromtimestamp_jst P new = Returns period_end"
  shows "fetch_messages_for_period T P ch old new w = history_loop T P ch old new None [] w"
  using assms by (simp add: fetch_messages_for_period_def)

lemma fetch_messages_returns_on_proper_input:
  assumes "fetch_messages_for_period T P ch old new w = Some y"
    and "fromtimestamp_jst P old = Returns period_start"
    and "fromtimestamp_jst P new = Returns period_end"
    and "\<forall>c req code hint c'.
           conversations_history T c req = (Raises (SlackApiError code hint), c') \<longrightarrow>
           hint = NoHint \<or>
           (\<exists>n. hint = Seconds n \<and> 0 \<le> n \<and> n \<le> 9223372036 \<and> \<not> sleep_refused P n)"
  shows "\<exists>messages. fst y = Returns messages"
  using assms(1) history_loop_returns_on_proper_hints [OF _ assms(4)]
  by (simp add: fetch_messages_unfold [OF assms(2,3)])

lemma fetch_messages_bad_bound:
  "fromtimestamp_jst P old = Raises e \<Longrightarrow>
     fetch_messages_for_period T P ch old new w = Some (Raises e, w)"
  by (simp add: fetch_messages_for_period_def)

section \<open>The history paginator\<close>

text \<open>
  C3. The claim: for every channel, bounds and transport behaviour the paginator never
  raises to its caller. The code does raise: when \<^verbatim>\<open>conversations_history\<close> raises a
  \<^verbatim>\<open>SlackApiError\<close> whose \<^verbatim>\<open>Retry-After\<close> header is not an integer (here on the
  first call), \<^verbatim>\<open>int(...)\<close> raises \<^verbatim>\<open>ValueError\<close> inside the handler, where
  \<^verbatim>\<open>except Exception\<close> does not reach, and the exception leaves
  \<^verbatim>\<open>fetch_messages_for_period\<close>.
\<close>

theorem fetch_messages_raises_on_unparsable_hint:
  "fetch_messages_for_period (rate_limited_client Unparsable) test_platform
       ''C123'' ''0'' ''10'' (0, []) =
     Some (Raises ValueError, (1, [HistoryRequest (request ''C123'' ''0'' ''10'' None)]))"
proof -
  have "conversations_history (rate_limited_client Unparsable) 0
          (request ''C123'' ''0'' ''10'' None) =
        (Raises (SlackApiError ''ratelimited'' Unparsable), 1)"
    by (simp add: rate_limited_client_def)
  from history_loop_unparsable [OF this] show ?thesis
    by (simp add: fetch_messages_for_period_def test_platform_def)
qed

text \<open>
  C4. The claim: whenever a history request fails with a rate-limit error that carries a
  wait hint, the paginator waits the hinted seconds and retries the same page. The code
  does so only for a hint that \<^verbatim>\<open>int\<close> and \<^verbatim>\<open>time.sleep\<close> accept. Here the second
  page is rate-limited with a \<^verbatim>\<open>Retry-After\<close> header that is not an integer: the
  paginator sleeps the inter-page delay, sends the request for the second page once,
  and then raises from the handler; it does not wait for the hint, does not send the
  request again, and the first page is lost to the caller.
\<close>

theorem unparsable_hint_is_not_retried:
  "fetch_messages_for_period (limited_later_client Unparsable) test_platform
       ''C123'' ''0'' ''10'' (0, []) =
     Some (Raises ValueError,
       (2, [HistoryRequest (request ''C123'' ''0'' ''10'' None), Sleep 1,
            HistoryRequest (request ''C123'' ''0'' ''10'' (Some ''cursor1''))]))"
proof -
  let ?r = "request ''C123'' ''0'' ''10''"
  have first: "conversations_history (limited_later_client Unparsable) 0 (?r None) =
      (Returns \<lparr>h_ok = True, h_messages = Some [raw ''1''], h_has_more = True,
                 h_next_cursor = Some ''cursor1''\<rparr>, 1)"
    by (simp add: limited_later_client_def dummy_client_def)
  have second: "conversations_history (limited_later_client Unparsable) 1
        (?r (Some ''cursor1'')) =
      (Raises (SlackApiError ''ratelimited'' Unparsable), 2)"
    by (simp add: limited_later_client_def)
  show ?thesis
    using history_loop_page_more
        [OF first, of "[raw ''1'']" "''cursor1''" test_platform "[]" "[]"]
      history_loop_unparsable
        [OF second, of test_platform "[raw ''1'']" "[HistoryRequest (?r None), Sleep 1]"]
    by (simp add: fetch_messages_for_period_def test_platform_def)
qed

text \<open>
  What the code does for the other hints, on a concrete run: a hint of three seconds on
  the first request is slept and the same request is sent again; without a hint, and
  for a response that is not ok, the pagination ends with what was accumulated.
\<close>

lemma proper_hint_is_retried:
  "fetch_messages_for_period (rate_limited_client (Seconds 3)) test_platform
       ''C123'' ''0'' ''10'' (0, []) =
     Some (Returns [raw ''1'', raw ''2''],
           (3, [HistoryRequest (request ''C123'' ''0'' ''10'' None), Sleep 3,
                HistoryRequest (request ''C123'' ''0'' ''10'' None), Sleep 1,
                HistoryRequest (request ''C123'' ''0'' ''10'' (Some ''cursor1''))]))"
proof -
  let ?r = "request ''C123'' ''0'' ''10''"
  let ?T = "rate_limited_client (Seconds 3)"
  have limited: "conversations_history ?T 0 (?r None) =
      (Raises (SlackApiError ''ratelimited'' (Seconds 3)), 1)"
    by (simp add: rate_limited_client_def)
  have granted: "\<not> sleep_refused test_platform 3"
    by (simp add: test_platform_def)
  have retry: "history_loop ?T test_platform ''C123'' ''0'' ''10'' None [] (0, []) =
      history_loop ?T test_platform ''C123'' ''0'' ''10'' None []
        (1, [HistoryRequest (?r None), Sleep 3])"
    using history_loop_rate_limited [OF limited _ _ granted, where acc = "[]" and lg = "[]"]
    by simp
  have first: "conversations_history ?T 1 (?r None) =
      (Returns \<lparr>h_ok = True, h_messages = Some [raw ''1''], h_has_more = True,
                 h_next_cursor = Some ''cursor1''\<rparr>, 2)"
    by (simp add: rate_limited_client_def dummy_client_def)
  have page1: "history_loop ?T test_platform ''C123'' ''0'' ''10'' None []
        (1, [HistoryRequest (?r None), Sleep 3]) =
      history_loop ?T test_platform ''C123'' ''0'' ''10'' (Some ''cursor1'') [raw ''1'']
        (2, [HistoryRequest (?r None), Sleep 3, HistoryRequest (?r None), Sleep 1])"
    using history_loop_page_more [OF first, of "[raw ''1'']" "''cursor1''" test_platform "[]"]
    by simp
  have second: "conversations_history ?T 2 (?r (Some ''cursor1'')) =
      (Returns \<lparr>h_ok = True, h_messages = Some [raw ''2''], h_has_more = False,
                 h_next_cursor = None\<rparr>, 3)"
    by (simp add: rate_limited_client_def dummy_client_def)
  have page2: "history_loop ?T test_platform ''C123'' ''0'' ''10'' (Some ''cursor1'')
        [raw ''1'']
        (2, [HistoryRequest (?r None), Sleep 3, HistoryRequest (?r None), Sleep 1]) =
      Some (Returns [raw ''1'', raw ''2''],
        (3, [HistoryRequest (?r None), Sleep 3, HistoryRequest (?r None), Sleep 1,
             HistoryRequest (?r (Some ''cursor1''))]))"
    using history_loop_page_last [OF second, of "[raw ''2'']" test_platform "[raw ''1'']"]
    by simp
  show ?thesis
    using retry page1 page2
    by (simp add: fetch_messages_for_period_def test_platform_def)
qed

text \<open>
  C5. A first page with more pages and a continuation cursor, then a second page
  without, for bounds that the period log can convert: the paginator returns the
  messages of the first page followed by those of the second, and sleeps the inter-page
  delay once, between the two requests.
\<close>

theorem two_pages_concatenated:
  assumes "fromtimestamp_jst P old = Returns period_start"
    and "fromtimestamp_jst P new = Returns period_end"
    and "conversations_history T c0 (request ch old new None) =
             (Returns \<lparr>h_ok = True, h_messages = Some page1, h_has_more = True,
                        h_next_cursor = Some k\<rparr>, c1)"
    and "conversations_history T c1 (request ch old new (Some k)) =
             (Returns \<lparr>h_ok = True, h_messages = Some page2, h_has_more = False,
                        h_next_cursor = any\<rparr>, c2)"
  shows "fetch_messages_for_period T P ch old new (c0, lg) =
           Some (Returns (page1 @ page2),
                 (c2, lg @ [HistoryRequest (request ch old new None), Sleep 1,
                            HistoryRequest (request ch old new (Some k))])) \<and>
         sleeps [HistoryRequest (request ch old new None), Sleep 1,
                 HistoryRequest (request ch old new (Some k))] = [1]"
  by (simp add: fetch_messages_unfold [OF assms(1,2)]
      history_loop_page_more [OF assms(3)] history_loop_page_last [OF assms(4)])

theorem two_pages_concatenated_witness:
  "fromtimestamp_jst test_platform ''0'' = Returns ''0'' \<and>
   fromtimestamp_jst test_platform ''10'' = Returns ''10'' \<and>
   conversations_history dummy_client 0 (request ''C123'' ''0'' ''10'' None) =
     (Returns \<lparr>h_ok = True, h_messages = Some [raw ''1''], h_has_more = True,
                h_next_cursor = Some ''cursor1''\<rparr>, 1) \<and>
   conversations_history dummy_client 1 (request ''C123'' ''0'' ''10'' (Some ''cursor1'')) =
     (Returns \<lparr>h_ok = True, h_messages = Some [raw ''2''], h_has_more = False,
                h_next_cursor = None\<rparr>, 2) \<and>
   fetch_messages_for_period dummy_client test_platform ''C123'' ''0'' ''10'' (0, []) =
     Some (Returns [raw ''1'', raw ''2''],
           (2, [HistoryRequest (request ''C123'' ''0'' ''10'' None), Sleep 1,
                HistoryRequest (request ''C123'' ''0'' ''10'' (Some ''cursor1''))]))"
  using two_pages_concatenated
    [where T = dummy_client and P = test_platform and ?c0.0 = 0 and ch = "''C123''"
       and old = "''0''" and new = "''10''" and period_start = "''0''"
       and period_end = "''10''" and ?page1.0 = "[raw ''1'']" and k = "''cursor1''"
       and ?c1.0 = 1 and ?page2.0 = "[raw ''2'']" and any = None and ?c2.0 = 2 and lg = "[]"]
  by (simp add: dummy_client_def test_platform_def)

section \<open>The thread expander\<close>

text \<open>
  C6. A reply chain \<open>root, r1, ..., rn\<close> in a response that is ok gives \<open>r1, ..., rn\<close>:
  the first element is left out. A \<^verbatim>\<open>SlackApiError\<close> and a response that is not ok
  give the empty list, and nothing is raised. One request is sent in each case.
\<close>

theorem fetch_thread_messages_drops_root:
  "(conversations_replies T c ch ts =
        (Returns \<lparr>r_ok = True, r_messages = Some (root # replies)\<rparr>, c') \<longrightarrow>
      fetch_thread_messages T ch ts (c, lg) =
      (Returns replies, (c', lg @ [RepliesRequest ch ts]))) \<and>
   (conversations_replies T c ch ts = (Raises (SlackApiError code hint), c') \<longrightarrow>
      fetch_thread_messages T ch ts (c, lg) = (Returns [], (c', lg @ [RepliesRequest ch ts]))) \<and>
   (conversations_replies T c ch ts = (Returns response, c') \<and> \<not> r_ok response \<longrightarrow>
      fetch_thread_messages T ch ts (c, lg) = (Returns [], (c', lg @ [RepliesRequest ch ts])))"
  by (simp add: fetch_thread_messages_def)

theorem fetch_thread_messages_drops_root_witness:
  "fetch_thread_messages dummy_client ''C123'' ''100'' (0, []) =
     (Returns [raw ''r1'', raw ''r2''], (0, [RepliesRequest ''C123'' ''100''])) \<and>
   fetch_thread_messages failing_client ''C123'' ''100'' (0, []) =
     (Returns [], (0, [RepliesRequest ''C123'' ''100''])) \<and>
   fetch_thread_messages not_ok_client ''C123'' ''100'' (0, []) =
     (Returns [], (0, [RepliesRequest ''C123'' ''100'']))"
proof -
  have ok: "conversations_replies dummy_client 0 ''C123'' ''100'' =
      (Returns \<lparr>r_ok = True, r_messages = Some (raw ''100'' # [raw ''r1'', raw ''r2''])\<rparr>, 0)"
    by (simp add: dummy_client_def)
  have err: "conversations_replies failing_client 0 ''C123'' ''100'' =
      (Raises (SlackApiError ''error'' NoHint), 0)"
    by (simp add: failing_client_def)
  have rep: "conversations_replies not_ok_client 0 ''C123'' ''100'' =
      (Returns \<lparr>r_ok = False, r_messages = None\<rparr>, 0)"
    by (simp add: not_ok_client_def)
  show ?thesis
    using fetch_thread_messages_drops_root
        [where T = dummy_client and c = 0 and ch = "''C123''" and ts = "''100''"
           and root = "raw ''100''" and replies = "[raw ''r1'', raw ''r2'']" and c' = 0
           and lg = "[]"]
      fetch_thread_messages_drops_root
        [where T = failing_client and c = 0 and ch = "''C123''" and ts = "''100''"
           and c' = 0 and code = "''error''" and hint = NoHint and lg = "[]"]
      fetch_thread_messages_drops_root
        [where T = not_ok_client and c = 0 and ch = "''C123''" and ts = "''100''"
           and c' = 0 and lg = "[]"
           and response = "\<lparr>r_ok = False, r_messages = None\<rparr>"]
      ok err rep
    by simp
qed


section \<open>The identity resolver\<close>

text \<open>
  The loop over a batch whose lookups all come back with a response or a
  \<^verbatim>\<open>SlackApiError\<close> runs to its end; it leaves the entries of other identifiers as
  they were and, the identifiers being distinct, stores for each one the entry that goes
  with its answer.
\<close>

lemma user_info_loop_survives:
  assumes "\<forall>(u, a) \<in> set (lookup_answers T c ids). survivable a"
  shows "\<exists>m w'. user_info_loop T ids m0 (c, lg) = (Returns m, w') \<and>
           (\<forall>u. u \<notin> set ids \<longrightarrow> map_of m u = map_of m0 u) \<and>
           (distinct ids \<longrightarrow> (\<forall>(u, a) \<in> set (lookup_answers T c ids). entry_for a (map_of m u)))"
  using assms
proof (induction ids arbitrary: c lg m0)
  case Nil
  then show ?case by simp
next
  case (Cons user_id rest)
  obtain a c1 where call: "users_info T c user_id = (a, c1)"
    by (cases "users_info T c user_id")
  from Cons.prems call have ok: "survivable a"
    and rest_ok: "\<forall>(u, a) \<in> set (lookup_answers T c1 rest). survivable a"
    by simp_all
  define lg1 where "lg1 = lg @ [UsersInfoRequest user_id]"
  show ?case
  proof (cases a)
    case (Returns response)
    show ?thesis
    proof (cases "u_ok response")
      case True
      with ok Returns obtain user where user: "u_user response = Some user"
        by auto
      from Cons.IH [OF rest_ok, of "AList.update user_id (resolved user) m0" "lg1 @ [Sleep 1]"]
      obtain m w' where
        run: "user_info_loop T rest (AList.update user_id (resolved user) m0)
                (c1, lg1 @ [Sleep 1]) = (Returns m, w')"
        and others: "\<forall>u. u \<notin> set rest \<longrightarrow>
                map_of m u = map_of (AList.update user_id (resolved user) m0) u"
        and entries: "distinct rest \<longrightarrow>
                (\<forall>(u, a) \<in> set (lookup_answers T c1 rest). entry_for a (map_of m u))"
        by blast
      have "user_info_loop T (user_id # rest) m0 (c, lg) = (Returns m, w')"
        using call Returns True user run by (simp add: pause_def lg1_def)
      moreover have "\<forall>u. u \<notin> set (user_id # rest) \<longrightarrow> map_of m u = map_of m0 u"
        using others by (simp add: update_conv')
      moreover have "distinct (user_id # rest) \<longrightarrow>
          (\<forall>(u, a) \<in> set (lookup_answers T c (user_id # rest)). entry_for a (map_of m u))"
        using others entries call Returns True user by (simp add: update_conv')
      ultimately show ?thesis by blast
    next
      case False
      from Cons.IH [OF rest_ok, of m0 "lg1 @ [Sleep 1]"]
      obtain m w' where
        run: "user_info_loop T rest m0 (c1, lg1 @ [Sleep 1]) = (Returns m, w')"
        and others: "\<forall>u. u \<notin> set rest \<longrightarrow> map_of m u = map_of m0 u"
        and entries: "distinct rest \<longrightarrow>
                (\<forall>(u, a) \<in> set (lookup_answers T c1 rest). entry_for a (map_of m u))"
        by blast
      have "user_info_loop T (user_id # rest) m0 (c, lg) = (Returns m, w')"
        using call Returns False run by (simp add: pause_def lg1_def)
      moreover have "\<forall>u. u \<notin> set (user_id # rest) \<longrightarrow> map_of m u = map_of m0 u"
        using others by simp
      moreover have "distinct (user_id # rest) \<longrightarrow>
          (\<forall>(u, a) \<in> set (lookup_answers T c (user_id # rest)). entry_for a (map_of m u))"
        using entries call Returns False by (simp split: option.splits)
      ultimately show ?thesis by blast
    qed
  next
    case (Raises e)
    with ok obtain code hint where e: "e = SlackApiError code hint"
      by (cases e) simp_all
    from Cons.IH [OF rest_ok, of "AList.update user_id unknown_user m0" lg1]
    obtain m w' where
      run: "user_info_loop T rest (AList.update user_id unknown_user m0) (c1, lg1) =
              (Returns m, w')"
      and others: "\<forall>u. u \<notin> set rest \<longrightarrow>
              map_of m u = map_of (AList.update user_id unknown_user m0) u"
      and entries: "distinct rest \<longrightarrow>
              (\<forall>(u, a) \<in> set (lookup_answers T c1 rest). entry_for a (map_of m u))"
      by blast
    have "user_info_loop T (user_id # rest) m0 (c, lg) = (Returns m, w')"
      using call Raises e run by (simp add: lg1_def)
    moreover have "\<forall>u. u \<notin> set (user_id # rest) \<longrightarrow> map_of m u = map_of m0 u"
      using others by (simp add: update_conv')
    moreover have "distinct (user_id # rest) \<longrightarrow>
        (\<forall>(u, a) \<in> set (lookup_answers T c (user_id # rest)). entry_for a (map_of m u))"
      using others entries call Raises e by (simp add: update_conv')
    ultimately show ?thesis by blast
  qed
qed

text \<open>
  C1. The claim: the mapping has one entry for each requested identifier, also when a
  lookup returns an unsuccessful response. The code stores nothing for a response with
  \<^verbatim>\<open>ok = False\<close>: the batch of the one identifier \<^verbatim>\<open>U1\<close>, looked up on a client
  that answers so, gives the empty mapping.
\<close>

theorem fetch_user_info_drops_not_ok_lookup:
  "fetch_user_info not_ok_client [''U1''] (0, []) =
     (Returns [], (0, [UsersInfoRequest ''U1'', Sleep 1]))"
  by (simp add: fetch_user_info_def not_ok_client_def pause_def)

text \<open>
  C2. In a batch of distinct identifiers whose lookups return a response or raise a
  \<^verbatim>\<open>SlackApiError\<close>, the resolver returns a mapping: it does not abort. An identifier
  whose lookup raised \<^verbatim>\<open>SlackApiError\<close> is mapped to the sentinel with the empty name
  and the display name \<^verbatim>\<open>Unknown User\<close>, and an identifier whose lookup succeeded is
  mapped to its resolved names.
\<close>

theorem lookup_error_maps_to_unknown_user:
  assumes "distinct ids"
    and "\<forall>(u, a) \<in> set (lookup_answers T c ids). survivable a"
  shows "\<exists>m w'. fetch_user_info T ids (c, lg) = (Returns m, w') \<and>
           (\<forall>(u, a) \<in> set (lookup_answers T c ids). entry_for a (map_of m u))"
  using user_info_loop_survives [OF assms(2), of "[]" lg] assms(1)
  unfolding fetch_user_info_def by blast

theorem lookup_error_maps_to_unknown_user_witness:
  "distinct [''U1'', ''U_err''] \<and>
   lookup_answers dummy_client 0 [''U1'', ''U_err''] =
     [(''U1'', Returns \<lparr>u_ok = True,
         u_user = Some \<lparr>su_name = Some ''name_U1'',
           su_profile = Some \<lparr>p_real_name = Some ''Real_U1'', p_display_name = None\<rparr>\<rparr>\<rparr>),
      (''U_err'', Raises (SlackApiError ''e'' NoHint))] \<and>
   (\<exists>m w'. fetch_user_info dummy_client [''U1'', ''U_err''] (0, []) = (Returns m, w') \<and>
      map_of m ''U1'' = Some \<lparr>ui_name = ''name_U1'', ui_display_name = ''Real_U1''\<rparr> \<and>
      map_of m ''U_err'' = Some \<lparr>ui_name = [], ui_display_name = ''Unknown User''\<rparr>)"
proof -
  have answers: "lookup_answers dummy_client 0 [''U1'', ''U_err''] =
     [(''U1'', Returns \<lparr>u_ok = True,
         u_user = Some \<lparr>su_name = Some ''name_U1'',
           su_profile = Some \<lparr>p_real_name = Some ''Real_U1'', p_display_name = None\<rparr>\<rparr>\<rparr>),
      (''U_err'', Raises (SlackApiError ''e'' NoHint))]"
    by (simp add: dummy_client_def)
  have "distinct [''U1'', ''U_err'']"
    by simp
  moreover have "\<forall>(u, a) \<in> set (lookup_answers dummy_client 0 [''U1'', ''U_err'']). survivable a"
    unfolding answers by simp
  ultimately obtain m w' where
    "fetch_user_info dummy_client [''U1'', ''U_err''] (0, []) = (Returns m, w')"
    "\<forall>(u, a) \<in> set (lookup_answers dummy_client 0 [''U1'', ''U_err'']). entry_for a (map_of m u)"
    using lookup_error_maps_to_unknown_user [of "[''U1'', ''U_err'']" dummy_client 0 "[]"]
    by blast
  then show ?thesis
    unfolding answers
    by (auto simp: resolved_def user_name_of_def display_name_of_def profile_of_def
        unknown_user_def)
qed


section \<open>The export assembler\<close>

subsection \<open>The identifiers collected by the first pass\<close>






subsection \<open>The records built by the second pass\<close>


lemma chat_entry_fields:
  "chat_entry T P ch m w = (Returns entry, w') \<Longrightarrow> message_fields entry = raw_fields m"
  by (auto simp: chat_entry_def message_data_def message_fields_def raw_fields_def
      split: option.splits prod.splits outcome.splits)


lemma chat_loop_fields:
  "chat_loop T P ch ms chat_data w = (Returns chat, w') \<Longrightarrow>
     map message_fields chat = map message_fields chat_data @ map raw_fields ms"
proof (induction ms arbitrary: chat_data w)
  case Nil
  then show ?case by simp
next
  case (Cons m ms)
  from Cons.prems obtain entry w1 where
    entry: "chat_entry T P ch m w = (Returns entry, w1)"
    and run: "chat_loop T P ch ms (chat_data @ [entry]) w1 = (Returns chat, w')"
    by (auto split: prod.splits outcome.splits)
  from Cons.IH [OF run] chat_entry_fields [OF entry] show ?case
    by simp
qed

lemma assemble_chat:
  assumes "assemble T P messages ch start_date end_date w = (Returns doc, w')"
  shows "map message_fields (ex_chat doc) = rev (map raw_fields messages)"
proof -
  from assms obtain w2 chat where
    "chat_loop T P ch (rev messages) [] w2 = (Returns chat, w')" and "ex_chat doc = chat"
    by (auto simp: assemble_def split: prod.splits outcome.splits)
  with chat_loop_fields [of T P ch "rev messages" "[]" w2 chat w'] show ?thesis
    by (simp add: rev_map)
qed

lemma written_append: "written (es @ es') = written es @ written es'"
  by (induction es rule: written.induct) simp_all

subsection \<open>The lookups of a run\<close>








subsection \<open>The test run\<close>

lemma assemble_test_run:
  "assemble export_client test_platform test_messages ''C123''
       ''2023-01-01 00:00:00'' ''2023-01-02 23:59:59'' (c, lg) =
     (Returns test_document, (c, lg @ test_events))"
  by (simp add: assemble_def test_messages_def test_thread_def export_client_def
      dummy_client_def test_platform_def fetch_user_info_def fetch_thread_messages_def
      chat_entry_def message_data_def thread_root_ts_def add_user_def get_default_def
      pause_def resolved_def user_name_of_def display_name_of_def profile_of_def
      test_document_def test_events_def)

text \<open>
  C7. The chat of the assembled document has one entry per raw top-level message, and the
  entries follow the raw messages in the reverse of the order in which the paginator
  delivered them.
\<close>

theorem chat_is_reverse_of_raw_order:
  assumes "assemble T P messages ch start_date end_date w = (Returns doc, w')"
  shows "length (ex_chat doc) = length messages \<and>
         map message_fields (ex_chat doc) = rev (map raw_fields messages)"
proof -
  have fields: "map message_fields (ex_chat doc) = rev (map raw_fields messages)"
    by (rule assemble_chat [OF assms])
  have "length (map message_fields (ex_chat doc)) = length (rev (map raw_fields messages))"
    by (simp only: fields)
  then have "length (ex_chat doc) = length messages"
    by simp
  with fields show ?thesis by simp
qed

theorem chat_is_reverse_of_raw_order_witness:
  "assemble export_client test_platform test_messages ''C123''
       ''2023-01-01 00:00:00'' ''2023-01-02 23:59:59'' (0, []) =
     (Returns test_document, (0, test_events)) \<and>
   length (ex_chat test_document) = 3 \<and>
   map message_fields (ex_chat test_document) =
     [(''300'', ''Unknown User'', ''joined''), (''200'', ''U2'', ''hi''),
      (''100'', ''U1'', ''hello'')]"
  using assemble_test_run [of 0 "[]"]
    chat_is_reverse_of_raw_order [of export_client test_platform test_messages "''C123''"
      "''2023-01-01 00:00:00''" "''2023-01-02 23:59:59''" "(0, [])" test_document
      "(0, test_events)"]
  by (simp add: test_messages_def raw_fields_def get_default_def)



section \<open>The main program\<close>

text \<open>
  C9, as claimed: whatever the pagination loop accumulated is exported, the empty list
  included. The code guards the export with \<^verbatim>\<open>if all_messages:\<close>. On a client whose
  first history response is not ok the loop stops with the empty list, and the run ends in
  the world the loop left: no document is written, so the empty list is not exported.
\<close>

theorem empty_history_is_not_exported:
  "fetch_messages_for_period not_ok_client test_platform ''C123'' ''0'' ''10'' (0, []) =
     Some (Returns [], (1, [HistoryRequest (request ''C123'' ''0'' ''10'' None)])) \<and>
   main_run not_ok_client test_platform ''C123'' ''0'' ''10'' None ''20230102-030405''
       ''2023-01-01 00:00:00'' ''2023-01-02 23:59:59'' (0, []) =
     Some (Returns (), (1, [HistoryRequest (request ''C123'' ''0'' ''10'' None)])) \<and>
   \<not> exported [] [HistoryRequest (request ''C123'' ''0'' ''10'' None)]"
proof -
  have "conversations_history not_ok_client 0 (request ''C123'' ''0'' ''10'' None) =
      (Returns \<lparr>h_ok = False, h_messages = None, h_has_more = False, h_next_cursor = None\<rparr>, 1)"
    by (simp add: not_ok_client_def)
  from history_loop_not_ok [OF this, where acc = "[]" and lg = "[]" and P = test_platform]
  have "fetch_messages_for_period not_ok_client test_platform ''C123'' ''0'' ''10'' (0, []) =
      Some (Returns [], (1, [HistoryRequest (request ''C123'' ''0'' ''10'' None)]))"
    by (simp add: fetch_messages_for_period_def test_platform_def)
  then show ?thesis
    by (simp add: main_run_def exported_def)
qed

text \<open>
  C9, amended. When the pagination loop stops and returns a list that is not empty
  (after the last page or after a terminal error), the main program hands that list to
  \<^verbatim>\<open>save_messages_to_file\<close>; when the assembly completes and the file can be opened,
  the run ends with the document written, which holds one chat entry per accumulated
  message. When the loop returns the empty list, the run ends there and writes nothing.
\<close>

theorem accumulated_messages_are_exported:
  "(fetch_messages_for_period T P ch old new w = Some (Returns all_messages, w1) \<and>
      all_messages \<noteq> [] \<and>
      assemble T P all_messages ch start_date end_date w1 = (Returns doc, w2) \<and>
      open_ok P (generate_output_filename ch out now) \<longrightarrow>
    main_run T P ch old new out now start_date end_date w =
      Some (Returns (),
        (fst w2, snd w2 @ [FileWrite (generate_output_filename ch out now) doc])) \<and>
    exported all_messages (snd w2 @ [FileWrite (generate_output_filename ch out now) doc])) \<and>
   (fetch_messages_for_period T P ch old new w = Some (Returns [], w1) \<longrightarrow>
    main_run T P ch old new out now start_date end_date w = Some (Returns (), w1))"
proof (intro conjI impI; (elim conjE)?)
  assume fetched: "fetch_messages_for_period T P ch old new w = Some (Returns all_messages, w1)"
    and some: "all_messages \<noteq> []"
    and assembled: "assemble T P all_messages ch start_date end_date w1 = (Returns doc, w2)"
    and writable: "open_ok P (generate_output_filename ch out now)"
  then show "main_run T P ch old new out now start_date end_date w =
      Some (Returns (),
        (fst w2, snd w2 @ [FileWrite (generate_output_filename ch out now) doc]))"
    by (simp add: main_run_def save_messages_to_file_def)
  from assemble_chat [OF assembled]
  show "exported all_messages
      (snd w2 @ [FileWrite (generate_output_filename ch out now) doc])"
    by (simp add: exported_def written_append)
next
  assume "fetch_messages_for_period T P ch old new w = Some (Returns [], w1)"
  then show "main_run T P ch old new out now start_date end_date w = Some (Returns (), w1)"
    by (simp add: main_run_def)
qed

theorem accumulated_messages_are_exported_witness:
  "fetch_messages_for_period export_client test_platform ''C123'' ''0'' ''10'' (0, []) =
     Some (Returns test_messages,
       (2, [HistoryRequest (request ''C123'' ''0'' ''10'' None), Sleep 1,
            HistoryRequest (request ''C123'' ''0'' ''10'' (Some ''cursor1''))])) \<and>
   test_messages \<noteq> [] \<and>
   main_run export_client test_platform ''C123'' ''0'' ''10'' None ''20230102-030405''
       ''2023-01-01 00:00:00'' ''2023-01-02 23:59:59'' (0, []) =
     Some (Returns (),
       (2, [HistoryRequest (request ''C123'' ''0'' ''10'' None), Sleep 1,
            HistoryRequest (request ''C123'' ''0'' ''10'' (Some ''cursor1''))] @ test_events @
           [FileWrite ''C123-20230102-030405.json'' test_document])) \<and>
   main_run not_ok_client test_platform ''C123'' ''0'' ''10'' None ''20230102-030405''
       ''2023-01-01 00:00:00'' ''2023-01-02 23:59:59'' (0, []) =
     Some (Returns (), (1, [HistoryRequest (request ''C123'' ''0'' ''10'' None)]))"
proof -
  let ?r = "request ''C123'' ''0'' ''10''"
  let ?ev = "[HistoryRequest (?r None), Sleep 1, HistoryRequest (?r (Some ''cursor1''))]"
  have first: "conversations_history export_client 0 (?r None) =
      (Returns \<lparr>h_ok = True, h_messages = Some test_messages, h_has_more = True,
                 h_next_cursor = Some ''cursor1''\<rparr>, 1)"
    by (simp add: export_client_def)
  have second: "conversations_history export_client 1 (?r (Some ''cursor1'')) =
      (Raises (SlackApiError ''internal_error'' NoHint), 2)"
    by (simp add: export_client_def)
  have fetched: "fetch_messages_for_period export_client test_platform ''C123'' ''0'' ''10'' (0, []) =
      Some (Returns test_messages, (2, ?ev))"
    using history_loop_page_more [OF first, where messages = test_messages and k = "''cursor1''"
        and acc = "[]" and lg = "[]" and P = test_platform]
      history_loop_no_hint [OF second, where acc = test_messages
        and lg = "[HistoryRequest (?r None), Sleep 1]" and P = test_platform]
    by (simp add: fetch_messages_for_period_def test_platform_def)
  have some: "test_messages \<noteq> []"
    by (simp add: test_messages_def)
  have writable: "open_ok test_platform (generate_output_filename ''C123'' None ''20230102-030405'')"
    by (simp add: test_platform_def)
  have name: "generate_output_filename ''C123'' None ''20230102-030405'' =
      ''C123-20230102-030405.json''"
    by (simp add: generate_output_filename_def)
  have reported: "conversations_history not_ok_client 0 (?r None) =
      (Returns \<lparr>h_ok = False, h_messages = None, h_has_more = False, h_next_cursor = None\<rparr>, 1)"
    by (simp add: not_ok_client_def)
  have stopped: "fetch_messages_for_period not_ok_client test_platform ''C123'' ''0'' ''10'' (0, []) =
      Some (Returns [], (1, [HistoryRequest (?r None)]))"
    using history_loop_not_ok [OF reported, where acc = "[]" and lg = "[]" and P = test_platform]
    by (simp add: fetch_messages_for_period_def test_platform_def)
  note full = accumulated_messages_are_exported
      [where T = export_client and P = test_platform and ch = "''C123''" and old = "''0''"
         and new = "''10''" and w = "(0, [])" and all_messages = test_messages
         and ?w1.0 = "(2, ?ev)" and start_date = "''2023-01-01 00:00:00''"
         and end_date = "''2023-01-02 23:59:59''" and doc = test_document
         and ?w2.0 = "(2, ?ev @ test_events)" and out = None and now = "''20230102-030405''",
       THEN conjunct1]
  have exported: "main_run export_client test_platform ''C123'' ''0'' ''10'' None
        ''20230102-030405'' ''2023-01-01 00:00:00'' ''2023-01-02 23:59:59'' (0, []) =
      Some (Returns (),
        (2, ?ev @ test_events @ [FileWrite ''C123-20230102-030405.json'' test_document]))"
    using full fetched some assemble_test_run [of 2 ?ev] writable name
    by simp
  note empty = accumulated_messages_are_exported
      [where T = not_ok_client and P = test_platform and ch = "''C123''" and old = "''0''"
         and new = "''10''" and w = "(0, [])" and ?w1.0 = "(1, [HistoryRequest (?r None)])"
         and start_date = "''2023-01-01 00:00:00''" and end_date = "''2023-01-02 23:59:59''"
         and out = None and now = "''20230102-030405''",
       THEN conjunct2]
  have skipped: "main_run not_ok_client test_platform ''C123'' ''0'' ''10'' None
        ''20230102-030405'' ''2023-01-01 00:00:00'' ''2023-01-02 23:59:59'' (0, []) =
      Some (Returns (), (1, [HistoryRequest (?r None)]))"
    using empty stopped by simp
  from fetched some exported skipped show ?thesis
    by simp
qed

end
